theory Spec2Isabelle
  imports Complex_Main "HOL-Library.Log_Nat"
begin

section \<open>The signed-action pipeline of \<open>dist/rest/exchange.js\<close>\<close>

text \<open>
  The class \<open>ExchangeAPI\<close> turns a trading intent into an action object, reads the
  clock for a nonce, has the action signed and hands the payload to the transport.
  Every method is embedded as a function from the world before the call to the outcome
  and the world after it. The world carries the wall clock and the trace of what the
  method did outside itself: directory lookups, clock reads, signer calls and
  dispatched requests.
\<close>

subsection \<open>JavaScript numbers\<close>

text \<open>
  A JavaScript number is an IEEE 754 double: a finite value is the rational it
  denotes, and the three special values are constructors of their own. The two zeros
  are one value here: the source never divides by a number or compares with
  \<open>Object.is\<close>, the only places that tell them apart.
\<close>

datatype number = Num rat | PosInfinity | NegInfinity | NaN

definition powr_int :: "nat \<Rightarrow> int \<Rightarrow> rat" where
  "powr_int b e = (if 0 \<le> e then of_nat b ^ nat e else 1 / of_nat b ^ nat (- e))"

text \<open>The integer part of the logarithm to base \<open>b\<close> of a positive rational.\<close>

definition ilog :: "nat \<Rightarrow> rat \<Rightarrow> int" where
  "ilog b q =
     (if 1 \<le> q then int (floorlog b (nat \<lfloor>q\<rfloor>)) - 1
      else - int (floorlog b (nat (\<lceil>1 / q\<rceil> - 1))))"

definition round_half_even :: "rat \<Rightarrow> int" where
  "round_half_even q =
     (let f = \<lfloor>q\<rfloor>; r = q - of_int f
      in if r < 1 / 2 then f else if 1 / 2 < r then f + 1 else if even f then f else f + 1)"

text \<open>
  Rounding of an exact result to the nearest double, ties to even: 53 significant
  bits, and the fixed exponent \<open>-1074\<close> in the subnormal range.
\<close>

definition fl :: "rat \<Rightarrow> rat" where
  "fl q =
     (if q = 0 then 0
      else let e = max (ilog 2 \<bar>q\<bar> - 52) (- 1074);
               m = round_half_even (\<bar>q\<bar> / powr_int 2 e)
           in sgn q * of_int m * powr_int 2 e)"

definition to_number :: "rat \<Rightarrow> number" where
  "to_number q =
     (let v = fl q
      in if 2 ^ 1024 \<le> v then PosInfinity
         else if v \<le> - (2 ^ 1024) then NegInfinity
         else Num v)"

text \<open>The operator \<open>*\<close> of \<open>usdc * 1e6\<close>.\<close>

fun number_times :: "number \<Rightarrow> number \<Rightarrow> number" where
  "number_times (Num p) (Num q) = to_number (p * q)"
| "number_times NaN y = NaN"
| "number_times x NaN = NaN"
| "number_times (Num p) PosInfinity =
     (if p = 0 then NaN else if 0 < p then PosInfinity else NegInfinity)"
| "number_times (Num p) NegInfinity =
     (if p = 0 then NaN else if 0 < p then NegInfinity else PosInfinity)"
| "number_times PosInfinity (Num q) =
     (if q = 0 then NaN else if 0 < q then PosInfinity else NegInfinity)"
| "number_times NegInfinity (Num q) =
     (if q = 0 then NaN else if 0 < q then NegInfinity else PosInfinity)"
| "number_times PosInfinity PosInfinity = PosInfinity"
| "number_times NegInfinity NegInfinity = PosInfinity"
| "number_times PosInfinity NegInfinity = NegInfinity"
| "number_times NegInfinity PosInfinity = NegInfinity"

text \<open>
  \<open>Number.prototype.toString()\<close> of \<open>amount.toString()\<close>: the shortest decimal
  digit string \<open>s\<close> of \<open>k\<close> digits with a decimal exponent \<open>n\<close> such that
  \<open>s * 10^(n - k)\<close> reads back as the same double, the closest one when there are
  two, laid out as ECMAScript lays it out.
\<close>

definition digit :: "nat \<Rightarrow> char" where
  "digit d = ''0123456789'' ! d"

fun digits :: "nat \<Rightarrow> string" where
  "digits n = (if n < 10 then [digit n] else digits (n div 10) @ [digit (n mod 10)])"

declare digits.simps [simp del]

definition candidates :: "rat \<Rightarrow> int \<Rightarrow> nat \<Rightarrow> (nat \<times> int) list" where
  "candidates x n0 k =
     (let t = x / powr_int 10 (n0 - int k);
          lo = nat \<lfloor>t\<rfloor>;
          hi = lo + 1;
          c_lo = (lo, n0);
          c_hi = (if hi = 10 ^ k then (10 ^ (k - 1), n0 + 1) else (hi, n0));
          val = (\<lambda>(s, n). of_nat s * powr_int 10 (n - int k));
          ok = (\<lambda>c. to_number (val c) = Num x);
          d_lo = x - val c_lo;
          d_hi = val c_hi - x
      in if ok c_lo \<and> ok c_hi then
           (if d_lo < d_hi then [c_lo] else if d_hi < d_lo then [c_hi]
            else if even lo then [c_lo] else [c_hi])
         else if ok c_lo then [c_lo]
         else if ok c_hi then [c_hi]
         else [])"

text \<open>
  The search tries \<open>k = 1, 2, ...\<close>; seventeen digits always read back, so the
  fuel of seventeen steps is never used up.
\<close>

fun shortest :: "rat \<Rightarrow> int \<Rightarrow> nat \<Rightarrow> nat \<Rightarrow> nat \<times> nat \<times> int" where
  "shortest x n0 k 0 = (k, nat \<lfloor>x / powr_int 10 (n0 - int k)\<rfloor>, n0)"
| "shortest x n0 k (Suc fuel) =
     (case candidates x n0 k of
        (s, n) # _ \<Rightarrow> (k, s, n)
      | [] \<Rightarrow> shortest x n0 (Suc k) fuel)"

definition render :: "nat \<Rightarrow> nat \<Rightarrow> int \<Rightarrow> string" where
  "render k s n =
     (let ds = digits s in
      if int k \<le> n \<and> n \<le> 21 then ds @ replicate (nat (n - int k)) CHR ''0''
      else if 0 < n \<and> n \<le> 21 then take (nat n) ds @ ''.'' @ drop (nat n) ds
      else if - 6 < n \<and> n \<le> 0 then ''0.'' @ replicate (nat (- n)) CHR ''0'' @ ds
      else let ex = (if 0 \<le> n - 1 then ''+'' else ''-'') @ digits (nat \<bar>n - 1\<bar>)
           in if k = 1 then ds @ ''e'' @ ex
              else take 1 ds @ ''.'' @ drop 1 ds @ ''e'' @ ex)"

definition positive_toString :: "rat \<Rightarrow> string" where
  "positive_toString x =
     (let n0 = ilog 10 x + 1;
          (k, s, n) = shortest x n0 1 17
      in render k s n)"

fun Number_toString :: "number \<Rightarrow> string" where
  "Number_toString NaN = ''NaN''"
| "Number_toString PosInfinity = ''Infinity''"
| "Number_toString NegInfinity = ''-Infinity''"
| "Number_toString (Num q) =
     (if q = 0 then ''0''
      else if q < 0 then ''-'' @ positive_toString (- q)
      else positive_toString q)"

subsection \<open>Requests, wire objects and actions\<close>

text \<open>A thrown JavaScript \<open>Error\<close> with its message.\<close>

datatype error = Error string

text \<open>A value that may be \<open>null\<close>.\<close>

datatype 'a nullable = Null | Value 'a

text \<open>
  Modelled from the spec: the type declarations of the requests are not part of the
  source file. An order request has the symbol \<open>coin\<close>, which the source reads, and
  the remaining fields (side, price, size, order type, client order id), which it only
  passes on; they are kept whole as \<open>details\<close>.
\<close>

record 'o OrderRequest =
  coin :: string
  details :: 'o

text \<open>
  A cancel request \<open>{coin, o}\<close>. The fields are prefixed because \<open>coin\<close> is taken and
  \<open>o\<close> is HOL's function composition.
\<close>

record CancelOrderRequest =
  cr_coin :: string
  cr_o :: number

text \<open>An entry \<open>{oid, order}\<close> of the argument of \<open>batchModifyOrders\<close>.\<close>

record 'o ModifyRequest =
  mr_oid :: number
  mr_order :: "'o OrderRequest"

text \<open>
  Modelled from the spec: \<open>orderRequestToOrderWire\<close> of \<open>utils/signing\<close> is not
  part of the source file. By section 3 of the specification the order wire is the
  encoding of an order request with \<open>coin\<close> replaced by the asset index.
\<close>

record 'o OrderWire =
  ow_asset :: nat
  ow_details :: 'o

definition orderRequestToOrderWire :: "'o OrderRequest \<Rightarrow> nat \<Rightarrow> 'o OrderWire" where
  "orderRequestToOrderWire orderRequest assetIndex =
     \<lparr>ow_asset = assetIndex, ow_details = details orderRequest\<rparr>"

text \<open>The entry \<open>{a, o}\<close> of a cancel action.\<close>

record CancelWire =
  cw_a :: nat
  cw_o :: number

text \<open>The entry \<open>{asset, cloid}\<close> of a cancel-by-cloid action.\<close>

record CloidCancelWire =
  cc_asset :: nat
  cc_cloid :: string

text \<open>The entry \<open>{oid, order}\<close> of a batch-modify action.\<close>

record 'o ModifyWire =
  mw_oid :: number
  mw_order :: "'o OrderWire"

text \<open>
  An action is an object literal with a \<open>type\<close> tag taken from the enumeration
  \<open>ExchangeType\<close>; each constructor is named after the member of the enumeration and
  carries the other fields of the literal in the order the source writes them:
  \<^item> \<open>ORDER orders\<close> (built by \<open>orderWiresToOrderAction\<close>)
  \<^item> \<open>CANCEL cancels\<close>
  \<^item> \<open>CANCEL_BY_CLOID cancels\<close>
  \<^item> \<open>MODIFY oid order\<close>
  \<^item> \<open>BATCH_MODIFY modifies\<close>
  \<^item> \<open>UPDATE_LEVERAGE asset isCross leverage\<close>
  \<^item> \<open>UPDATE_ISOLATED_MARGIN asset isBuy ntli\<close>
  \<^item> \<open>USD_SEND hyperliquidChain signatureChainId destination amount time\<close>
  \<^item> \<open>SPOT_SEND hyperliquidChain signatureChainId destination token amount time\<close>
  \<^item> \<open>WITHDRAW hyperliquidChain signatureChainId destination amount time\<close>
  \<^item> \<open>SPOT_USER usdc toPerp\<close> (the two fields of \<open>classTransfer\<close>)
  \<^item> \<open>SCHEDULE_CANCEL time\<close>
  \<^item> \<open>VAULT_TRANSFER vaultAddress isDeposit usd\<close>
  \<^item> \<open>SET_REFERRER code\<close>
\<close>

datatype 'o action =
    ORDER "'o OrderWire list"
  | CANCEL "CancelWire list"
  | CANCEL_BY_CLOID "CloidCancelWire list"
  | MODIFY number "'o OrderWire"
  | BATCH_MODIFY "'o ModifyWire list"
  | UPDATE_LEVERAGE nat bool number
  | UPDATE_ISOLATED_MARGIN nat bool number
  | USD_SEND string string string string int
  | SPOT_SEND string string string string string int
  | WITHDRAW string string string string int
  | SPOT_USER number bool
  | SCHEDULE_CANCEL number
  | VAULT_TRANSFER string bool number
  | SET_REFERRER string

text \<open>
  Modelled from the spec: \<open>orderWiresToOrderAction\<close> of \<open>utils/signing\<close> is not part
  of the source file. By section 8 of the specification it yields the action of kind
  place-order that contains the wires.
\<close>

definition orderWiresToOrderAction :: "'o OrderWire list \<Rightarrow> 'o action" where
  "orderWiresToOrderAction orderWires = ORDER orderWires"

text \<open>
  The payload handed to the transport. A key of an object literal is either missing
  or holds a value, which for \<open>vaultAddress\<close> may be \<open>null\<close>: \<open>None\<close> is the missing
  key, \<open>Some Null\<close> the key holding \<open>null\<close>.
\<close>

record ('o, 'sig) payload =
  action :: "'o action"
  nonce :: int
  signature :: 'sig
  vaultAddress :: "string nullable option"

subsection \<open>The world and the capabilities\<close>

datatype ('o, 'sig) event =
    Lookup string
  | DateNow int
  | SignL1 "'o action" "string nullable" int
  | SignUsdTransfer "'o action"
  | SignUserSigned "'o action" "(string \<times> string) list" string
  | SignWithdraw "'o action"
  | Request "('o, 'sig) payload" nat

record ('o, 'sig) world =
  clock :: int
  trace :: "('o, 'sig) event list"

text \<open>
  What the instance holds and what the module imports: the wallet, the symbol
  directory, the transport, and the four signing functions of \<open>utils/signing\<close>. None
  of them is part of the source file, so each is a parameter. The directory answers
  \<open>None\<close> where the source gets \<open>undefined\<close>; a signer or the transport may throw.
\<close>

record ('o, 'sig, 'resp) env =
  wallet :: string
  symbolConversion :: "string \<Rightarrow> nat option"
  httpApi :: "('o, 'sig) payload \<Rightarrow> nat \<Rightarrow> error + 'resp"
  signL1Action :: "string \<Rightarrow> 'o action \<Rightarrow> string nullable \<Rightarrow> int \<Rightarrow> error + 'sig"
  signUsdTransferAction :: "string \<Rightarrow> 'o action \<Rightarrow> error + 'sig"
  signUserSignedAction ::
    "string \<Rightarrow> 'o action \<Rightarrow> (string \<times> string) list \<Rightarrow> string \<Rightarrow> error + 'sig"
  signWithdrawFromBridgeAction :: "string \<Rightarrow> 'o action \<Rightarrow> error + 'sig"

text \<open>\<open>const IS_MAINNET = true\<close>\<close>

definition IS_MAINNET :: bool where
  "IS_MAINNET = True"

subsection \<open>Promises\<close>

text \<open>
  An asynchronous computation takes the world and returns its outcome, a thrown
  error or a value, with the world it leaves. \<open>await p k\<close> is
  \<open>const x = await p; k x\<close>: a rejection of \<open>p\<close> leaves the method at once.
\<close>

type_synonym ('o, 'sig, 'a) promise =
  "('o, 'sig) world \<Rightarrow> (error + 'a) \<times> ('o, 'sig) world"

definition resolved :: "'a \<Rightarrow> ('o, 'sig, 'a) promise" where
  "resolved x w = (Inr x, w)"

definition throw :: "error \<Rightarrow> ('o, 'sig, 'a) promise" where
  "throw e w = (Inl e, w)"

definition await ::
  "('o, 'sig, 'a) promise \<Rightarrow> ('a \<Rightarrow> ('o, 'sig, 'b) promise) \<Rightarrow> ('o, 'sig, 'b) promise" where
  "await p k w = (case p w of (Inl e, w1) \<Rightarrow> (Inl e, w1) | (Inr x, w1) \<Rightarrow> k x w1)"

definition emit :: "('o, 'sig) event \<Rightarrow> ('o, 'sig) world \<Rightarrow> ('o, 'sig) world" where
  "emit ev w = w\<lparr>trace := trace w @ [ev]\<rparr>"

text \<open>
  \<open>Promise.all\<close> over promises that were all started by the \<open>map\<close> before it: every
  one of them runs, the values come back in the order of the list, and the first
  rejection is the outcome. The promises settle here in the order of the list.
\<close>

fun Promise_all :: "('o, 'sig, 'a) promise list \<Rightarrow> ('o, 'sig, 'a list) promise" where
  "Promise_all [] w = (Inr [], w)"
| "Promise_all (p # ps) w =
     (case p w of (r, w1) \<Rightarrow>
        (case Promise_all ps w1 of (rs, w2) \<Rightarrow>
           (case r of
              Inl e \<Rightarrow> (Inl e, w2)
            | Inr x \<Rightarrow> (case rs of Inl e \<Rightarrow> (Inl e, w2) | Inr xs \<Rightarrow> (Inr (x # xs), w2)))))"

text \<open>\<open>Date.now()\<close>\<close>

definition Date_now :: "('o, 'sig, int) promise" where
  "Date_now w = (Inr (clock w), emit (DateNow (clock w)) w)"

text \<open>Wall-clock time that goes by between two calls, in milliseconds.\<close>

definition elapse :: "nat \<Rightarrow> ('o, 'sig) world \<Rightarrow> ('o, 'sig) world" where
  "elapse d w = w\<lparr>clock := clock w + int d\<rparr>"

definition lookup :: "('o, 'sig, 'resp) env \<Rightarrow> string \<Rightarrow> ('o, 'sig, nat option) promise" where
  "lookup env symbol w = (Inr (symbolConversion env symbol), emit (Lookup symbol) w)"

definition signL1 ::
  "('o, 'sig, 'resp) env \<Rightarrow> 'o action \<Rightarrow> string nullable \<Rightarrow> int \<Rightarrow> ('o, 'sig, 'sig) promise" where
  "signL1 env act vault n w =
     (signL1Action env (wallet env) act vault n, emit (SignL1 act vault n) w)"

definition signUsdTransfer ::
  "('o, 'sig, 'resp) env \<Rightarrow> 'o action \<Rightarrow> ('o, 'sig, 'sig) promise" where
  "signUsdTransfer env act w =
     (signUsdTransferAction env (wallet env) act, emit (SignUsdTransfer act) w)"

definition signUserSigned ::
  "('o, 'sig, 'resp) env \<Rightarrow> 'o action \<Rightarrow> (string \<times> string) list \<Rightarrow> string \<Rightarrow>
     ('o, 'sig, 'sig) promise" where
  "signUserSigned env act types primaryType w =
     (signUserSignedAction env (wallet env) act types primaryType,
      emit (SignUserSigned act types primaryType) w)"

definition signWithdrawFromBridge ::
  "('o, 'sig, 'resp) env \<Rightarrow> 'o action \<Rightarrow> ('o, 'sig, 'sig) promise" where
  "signWithdrawFromBridge env act w =
     (signWithdrawFromBridgeAction env (wallet env) act, emit (SignWithdraw act) w)"

definition makeRequest ::
  "('o, 'sig, 'resp) env \<Rightarrow> ('o, 'sig) payload \<Rightarrow> nat \<Rightarrow> ('o, 'sig, 'resp) promise" where
  "makeRequest env p weight w = (httpApi env p weight, emit (Request p weight) w)"

subsection \<open>The methods of \<open>ExchangeAPI\<close>\<close>

definition getAssetIndex :: "('o, 'sig, 'resp) env \<Rightarrow> string \<Rightarrow> ('o, 'sig, nat) promise" where
  "getAssetIndex env symbol =
     await (lookup env symbol) (\<lambda>index.
       case index of
         None \<Rightarrow> throw (Error (''Unknown asset: '' @ symbol))
       | Some i \<Rightarrow> resolved i)"

text \<open>
  The second parameter of \<open>placeOrder\<close> has the default \<open>null\<close>: \<open>None\<close> is the
  call that leaves it out.
\<close>

definition placeOrder ::
  "('o, 'sig, 'resp) env \<Rightarrow> 'o OrderRequest \<Rightarrow> string nullable option \<Rightarrow>
     ('o, 'sig, 'resp) promise" where
  "placeOrder env orderRequest vaultAddress_arg =
     (let vault = (case vaultAddress_arg of None \<Rightarrow> Null | Some v \<Rightarrow> v) in
      await (getAssetIndex env (coin orderRequest)) (\<lambda>assetIndex.
        let orderWire = orderRequestToOrderWire orderRequest assetIndex;
            action = orderWiresToOrderAction [orderWire]
        in await Date_now (\<lambda>nonce.
           await (signL1 env action vault nonce) (\<lambda>signature.
             makeRequest env
               \<lparr>action = action, nonce = nonce, signature = signature,
                vaultAddress = Some vault\<rparr> 1))))"

text \<open>The argument of \<open>cancelOrder\<close> is one request or an array of requests.\<close>

datatype 'a one_or_many = One 'a | Many "'a list"

definition cancelOrder ::
  "('o, 'sig, 'resp) env \<Rightarrow> CancelOrderRequest one_or_many \<Rightarrow> ('o, 'sig, 'resp) promise" where
  "cancelOrder env cancelRequests =
     (let cancels = (case cancelRequests of Many rs \<Rightarrow> rs | One r \<Rightarrow> [r]) in
      await (Promise_all (map (\<lambda>req.
               await (getAssetIndex env (cr_coin req)) (\<lambda>a. resolved (req, a))) cancels))
        (\<lambda>cancelsWithIndices.
        let action = CANCEL (map (\<lambda>(req, a). \<lparr>cw_a = a, cw_o = cr_o req\<rparr>) cancelsWithIndices)
        in await Date_now (\<lambda>nonce.
           await (signL1 env action Null nonce) (\<lambda>signature.
             makeRequest env
               \<lparr>action = action, nonce = nonce, signature = signature,
                vaultAddress = None\<rparr> 1))))"

definition cancelOrderByCloid ::
  "('o, 'sig, 'resp) env \<Rightarrow> string \<Rightarrow> string \<Rightarrow> ('o, 'sig, 'resp) promise" where
  "cancelOrderByCloid env symbol cloid =
     await (getAssetIndex env symbol) (\<lambda>assetIndex.
       let action = CANCEL_BY_CLOID [\<lparr>cc_asset = assetIndex, cc_cloid = cloid\<rparr>]
       in await Date_now (\<lambda>nonce.
          await (signL1 env action Null nonce) (\<lambda>signature.
            makeRequest env
              \<lparr>action = action, nonce = nonce, signature = signature,
               vaultAddress = None\<rparr> 1)))"

definition modifyOrder ::
  "('o, 'sig, 'resp) env \<Rightarrow> number \<Rightarrow> 'o OrderRequest \<Rightarrow> ('o, 'sig, 'resp) promise" where
  "modifyOrder env oid orderRequest =
     await (getAssetIndex env (coin orderRequest)) (\<lambda>assetIndex.
       let orderWire = orderRequestToOrderWire orderRequest assetIndex;
           action = MODIFY oid orderWire
       in await Date_now (\<lambda>nonce.
          await (signL1 env action Null nonce) (\<lambda>signature.
            makeRequest env
              \<lparr>action = action, nonce = nonce, signature = signature,
               vaultAddress = None\<rparr> 1)))"

text \<open>
  \<open>modifies.map((m, index) => ... assetIndices[index] ...)\<close>: each entry takes the
  index at its own position. \<open>Promise.all\<close> returns as many indices as there are
  entries (lemma \<open>Promise_all_length\<close> below), so the position is always in range.
\<close>

definition batchModifyOrders ::
  "('o, 'sig, 'resp) env \<Rightarrow> 'o ModifyRequest list \<Rightarrow> ('o, 'sig, 'resp) promise" where
  "batchModifyOrders env modifies =
     await (Promise_all (map (\<lambda>m. getAssetIndex env (coin (mr_order m))) modifies))
       (\<lambda>assetIndices.
       let action = BATCH_MODIFY (map (\<lambda>(m, index).
                      \<lparr>mw_oid = mr_oid m,
                       mw_order = orderRequestToOrderWire (mr_order m) (assetIndices ! index)\<rparr>)
                      (zip modifies [0..<length modifies]))
       in await Date_now (\<lambda>nonce.
          await (signL1 env action Null nonce) (\<lambda>signature.
            makeRequest env
              \<lparr>action = action, nonce = nonce, signature = signature,
               vaultAddress = None\<rparr> 1)))"

definition updateLeverage ::
  "('o, 'sig, 'resp) env \<Rightarrow> string \<Rightarrow> string \<Rightarrow> number \<Rightarrow> ('o, 'sig, 'resp) promise" where
  "updateLeverage env symbol leverageMode leverage =
     await (getAssetIndex env symbol) (\<lambda>assetIndex.
       let action = UPDATE_LEVERAGE assetIndex (leverageMode = ''cross'') leverage
       in await Date_now (\<lambda>nonce.
          await (signL1 env action Null nonce) (\<lambda>signature.
            makeRequest env
              \<lparr>action = action, nonce = nonce, signature = signature,
               vaultAddress = None\<rparr> 1)))"

definition updateIsolatedMargin ::
  "('o, 'sig, 'resp) env \<Rightarrow> string \<Rightarrow> bool \<Rightarrow> number \<Rightarrow> ('o, 'sig, 'resp) promise" where
  "updateIsolatedMargin env symbol isBuy ntli =
     await (getAssetIndex env symbol) (\<lambda>assetIndex.
       let action = UPDATE_ISOLATED_MARGIN assetIndex isBuy ntli
       in await Date_now (\<lambda>nonce.
          await (signL1 env action Null nonce) (\<lambda>signature.
            makeRequest env
              \<lparr>action = action, nonce = nonce, signature = signature,
               vaultAddress = None\<rparr> 1)))"

text \<open>
  In the three transfer methods the clock is read while the action is built, and the
  payload takes its nonce from the field \<open>time\<close> of the action.
\<close>

fun action_time :: "'o action \<Rightarrow> int option" where
  "action_time (USD_SEND hyperliquidChain signatureChainId destination amount time) = Some time"
| "action_time (SPOT_SEND hyperliquidChain signatureChainId destination token amount time) =
     Some time"
| "action_time (WITHDRAW hyperliquidChain signatureChainId destination amount time) = Some time"
| "action_time _ = None"

definition usdTransfer ::
  "('o, 'sig, 'resp) env \<Rightarrow> string \<Rightarrow> number \<Rightarrow> ('o, 'sig, 'resp) promise" where
  "usdTransfer env destination amount =
     await Date_now (\<lambda>time.
       let action = USD_SEND (if IS_MAINNET then ''Mainnet'' else ''Testnet'') ''0xa4b1''
                      destination (Number_toString amount) time
       in await (signUsdTransfer env action) (\<lambda>signature.
            makeRequest env
              \<lparr>action = action, nonce = the (action_time action), signature = signature,
               vaultAddress = None\<rparr> 1))"

definition spotTransfer ::
  "('o, 'sig, 'resp) env \<Rightarrow> string \<Rightarrow> string \<Rightarrow> string \<Rightarrow> ('o, 'sig, 'resp) promise" where
  "spotTransfer env destination token amount =
     await Date_now (\<lambda>time.
       let action = SPOT_SEND (if IS_MAINNET then ''Mainnet'' else ''Testnet'') ''0xa4b1''
                      destination token amount time
       in await (signUserSigned env action
                   [(''hyperliquidChain'', ''string''),
                    (''destination'', ''string''),
                    (''token'', ''string''),
                    (''amount'', ''string''),
                    (''time'', ''uint64'')]
                   ''HyperliquidTransaction:SpotSend'') (\<lambda>signature.
            makeRequest env
              \<lparr>action = action, nonce = the (action_time action), signature = signature,
               vaultAddress = None\<rparr> 1))"

definition initiateWithdrawal ::
  "('o, 'sig, 'resp) env \<Rightarrow> string \<Rightarrow> number \<Rightarrow> ('o, 'sig, 'resp) promise" where
  "initiateWithdrawal env destination amount =
     await Date_now (\<lambda>time.
       let action = WITHDRAW (if IS_MAINNET then ''Mainnet'' else ''Testnet'') ''0xa4b1''
                      destination (Number_toString amount) time
       in await (signWithdrawFromBridge env action) (\<lambda>signature.
            makeRequest env
              \<lparr>action = action, nonce = the (action_time action), signature = signature,
               vaultAddress = None\<rparr> 1))"

definition transferBetweenSpotAndPerp ::
  "('o, 'sig, 'resp) env \<Rightarrow> number \<Rightarrow> bool \<Rightarrow> ('o, 'sig, 'resp) promise" where
  "transferBetweenSpotAndPerp env usdc toPerp =
     (let action = SPOT_USER (number_times usdc (Num 1000000)) toPerp
      in await Date_now (\<lambda>nonce.
         await (signL1 env action Null nonce) (\<lambda>signature.
           makeRequest env
             \<lparr>action = action, nonce = nonce, signature = signature,
              vaultAddress = None\<rparr> 1)))"

definition scheduleCancel ::
  "('o, 'sig, 'resp) env \<Rightarrow> number \<Rightarrow> ('o, 'sig, 'resp) promise" where
  "scheduleCancel env time =
     (let action = SCHEDULE_CANCEL time
      in await Date_now (\<lambda>nonce.
         await (signL1 env action Null nonce) (\<lambda>signature.
           makeRequest env
             \<lparr>action = action, nonce = nonce, signature = signature,
              vaultAddress = None\<rparr> 1)))"

definition vaultTransfer ::
  "('o, 'sig, 'resp) env \<Rightarrow> string \<Rightarrow> bool \<Rightarrow> number \<Rightarrow> ('o, 'sig, 'resp) promise" where
  "vaultTransfer env vault isDeposit usd =
     (let action = VAULT_TRANSFER vault isDeposit usd
      in await Date_now (\<lambda>nonce.
         await (signL1 env action Null nonce) (\<lambda>signature.
           makeRequest env
             \<lparr>action = action, nonce = nonce, signature = signature,
              vaultAddress = None\<rparr> 1)))"

definition setReferrer ::
  "('o, 'sig, 'resp) env \<Rightarrow> string \<Rightarrow> ('o, 'sig, 'resp) promise" where
  "setReferrer env code =
     (let action = SET_REFERRER code
      in await Date_now (\<lambda>nonce.
         await (signL1 env action Null nonce) (\<lambda>signature.
           makeRequest env
             \<lparr>action = action, nonce = nonce, signature = signature,
              vaultAddress = None\<rparr> 1)))"

subsection \<open>Calls and what they leave in the trace\<close>

text \<open>One constructor for each public method, with its arguments.\<close>

datatype 'o call =
    PlaceOrder "'o OrderRequest" "string nullable option"
  | CancelOrder "CancelOrderRequest one_or_many"
  | CancelOrderByCloid string string
  | ModifyOrder number "'o OrderRequest"
  | BatchModifyOrders "'o ModifyRequest list"
  | UpdateLeverage string string number
  | UpdateIsolatedMargin string bool number
  | UsdTransfer string number
  | SpotTransfer string string string
  | InitiateWithdrawal string number
  | TransferBetweenSpotAndPerp number bool
  | ScheduleCancel number
  | VaultTransfer string bool number
  | SetReferrer string

fun exec :: "('o, 'sig, 'resp) env \<Rightarrow> 'o call \<Rightarrow> ('o, 'sig, 'resp) promise" where
  "exec env (PlaceOrder orderRequest vaultAddress_arg) = placeOrder env orderRequest vaultAddress_arg"
| "exec env (CancelOrder cancelRequests) = cancelOrder env cancelRequests"
| "exec env (CancelOrderByCloid symbol cloid) = cancelOrderByCloid env symbol cloid"
| "exec env (ModifyOrder oid orderRequest) = modifyOrder env oid orderRequest"
| "exec env (BatchModifyOrders modifies) = batchModifyOrders env modifies"
| "exec env (UpdateLeverage symbol leverageMode leverage) =
     updateLeverage env symbol leverageMode leverage"
| "exec env (UpdateIsolatedMargin symbol isBuy ntli) = updateIsolatedMargin env symbol isBuy ntli"
| "exec env (UsdTransfer destination amount) = usdTransfer env destination amount"
| "exec env (SpotTransfer destination token amount) = spotTransfer env destination token amount"
| "exec env (InitiateWithdrawal destination amount) = initiateWithdrawal env destination amount"
| "exec env (TransferBetweenSpotAndPerp usdc toPerp) = transferBetweenSpotAndPerp env usdc toPerp"
| "exec env (ScheduleCancel time) = scheduleCancel env time"
| "exec env (VaultTransfer vault isDeposit usd) = vaultTransfer env vault isDeposit usd"
| "exec env (SetReferrer code) = setReferrer env code"

text \<open>The symbols a call refers to, in the order of its arguments.\<close>

fun symbols :: "'o call \<Rightarrow> string list" where
  "symbols (PlaceOrder orderRequest vaultAddress_arg) = [coin orderRequest]"
| "symbols (CancelOrder (One r)) = [cr_coin r]"
| "symbols (CancelOrder (Many rs)) = map cr_coin rs"
| "symbols (CancelOrderByCloid symbol cloid) = [symbol]"
| "symbols (ModifyOrder oid orderRequest) = [coin orderRequest]"
| "symbols (BatchModifyOrders modifies) = map (\<lambda>m. coin (mr_order m)) modifies"
| "symbols (UpdateLeverage symbol leverageMode leverage) = [symbol]"
| "symbols (UpdateIsolatedMargin symbol isBuy ntli) = [symbol]"
| "symbols _ = []"

fun is_transfer :: "'o call \<Rightarrow> bool" where
  "is_transfer (UsdTransfer destination amount) = True"
| "is_transfer (SpotTransfer destination token amount) = True"
| "is_transfer (InitiateWithdrawal destination amount) = True"
| "is_transfer _ = False"

text \<open>The events a call appends to the trace.\<close>

definition effects ::
  "('o, 'sig, 'resp) env \<Rightarrow> 'o call \<Rightarrow> ('o, 'sig) world \<Rightarrow> ('o, 'sig) event list" where
  "effects env c w = drop (length (trace w)) (trace (snd (exec env c w)))"

fun lookups :: "('o, 'sig) event list \<Rightarrow> string list" where
  "lookups [] = []"
| "lookups (Lookup s # evs) = s # lookups evs"
| "lookups (ev # evs) = lookups evs"

fun clock_reads :: "('o, 'sig) event list \<Rightarrow> int list" where
  "clock_reads [] = []"
| "clock_reads (DateNow t # evs) = t # clock_reads evs"
| "clock_reads (ev # evs) = clock_reads evs"

text \<open>The calls of a signing function, and the actions they were given.\<close>

fun signer_calls :: "('o, 'sig) event list \<Rightarrow> ('o, 'sig) event list" where
  "signer_calls [] = []"
| "signer_calls (Lookup s # evs) = signer_calls evs"
| "signer_calls (DateNow t # evs) = signer_calls evs"
| "signer_calls (Request p weight # evs) = signer_calls evs"
| "signer_calls (ev # evs) = ev # signer_calls evs"

fun signed_actions :: "('o, 'sig) event list \<Rightarrow> 'o action list" where
  "signed_actions [] = []"
| "signed_actions (SignL1 act vault n # evs) = act # signed_actions evs"
| "signed_actions (SignUsdTransfer act # evs) = act # signed_actions evs"
| "signed_actions (SignUserSigned act types primaryType # evs) = act # signed_actions evs"
| "signed_actions (SignWithdraw act # evs) = act # signed_actions evs"
| "signed_actions (ev # evs) = signed_actions evs"

fun requests :: "('o, 'sig) event list \<Rightarrow> ('o, 'sig) payload list" where
  "requests [] = []"
| "requests (Request p weight # evs) = p # requests evs"
| "requests (ev # evs) = requests evs"

text \<open>The asset indices that an action carries, in the order of its entries.\<close>

fun action_assets :: "'o action \<Rightarrow> nat list" where
  "action_assets (ORDER orders) = map ow_asset orders"
| "action_assets (CANCEL cancels) = map cw_a cancels"
| "action_assets (CANCEL_BY_CLOID cancels) = map cc_asset cancels"
| "action_assets (MODIFY oid order) = [ow_asset order]"
| "action_assets (BATCH_MODIFY modifies) = map (\<lambda>m. ow_asset (mw_order m)) modifies"
| "action_assets (UPDATE_LEVERAGE asset isCross leverage) = [asset]"
| "action_assets (UPDATE_ISOLATED_MARGIN asset isBuy ntli) = [asset]"
| "action_assets _ = []"

subsection \<open>A concrete instance\<close>

text \<open>
  A directory that knows \<open>BTC\<close> as 3 and \<open>ETH\<close> as 1, signers that return the name
  of their scheme, and a transport that answers \<open>ok\<close>; the world starts at a clock
  reading of 1700000000000 ms with an empty trace.
\<close>

definition demo_env :: "(string, string, string) env" where
  "demo_env =
     \<lparr>wallet = ''0xabc'',
      symbolConversion = [''BTC'' \<mapsto> 3, ''ETH'' \<mapsto> 1],
      httpApi = (\<lambda>p weight. Inr ''ok''),
      signL1Action = (\<lambda>k act vault n. Inr ''l1''),
      signUsdTransferAction = (\<lambda>k act. Inr ''usd''),
      signUserSignedAction = (\<lambda>k act types primaryType. Inr ''user''),
      signWithdrawFromBridgeAction = (\<lambda>k act. Inr ''withdraw'')\<rparr>"

definition demo_world :: "(string, string) world" where
  "demo_world = \<lparr>clock = 1700000000000, trace = []\<rparr>"

definition demo_order :: "string \<Rightarrow> string OrderRequest" where
  "demo_order symbol = \<lparr>coin = symbol, details = ''buy 0.1 at 50000''\<rparr>"

section \<open>Properties\<close>

subsection \<open>Rounding and printing of numbers\<close>

lemma round_half_even_of_int: "round_half_even (of_int k) = k"
  by (simp add: round_half_even_def)

lemma fl_of_int_small:
  assumes "n \<noteq> 0" and "\<bar>n\<bar> < 2 ^ 53"
  shows "fl (of_int n) = of_int n"
proof -
  define a where "a = \<bar>n\<bar>"
  define L where "L = floorlog 2 (nat a)"
  define k where "k = 53 - L"
  have a1: "1 \<le> a"
    using assms(1) by (simp add: a_def)
  have "nat a < 2 ^ 53"
    using assms(2) a1 by (simp add: a_def nat_less_iff)
  then have L53: "L \<le> 53"
    by (simp add: L_def floorlog_le_iff)
  have L1: "1 \<le> L"
    using a1 floorlog_geI [of 2 1 "nat a"] by (simp add: L_def)
  have abs: "\<bar>of_int n :: rat\<bar> = of_int a"
    by (simp add: a_def)
  have "ilog 2 (of_int a) = int L - 1"
    using a1 by (simp add: ilog_def L_def)
  then have e: "max (ilog 2 \<bar>of_int n :: rat\<bar> - 52) (- 1074) = int L - 53"
    using L1 by (simp add: abs)
  have pw: "powr_int 2 (int L - 53) = 1 / 2 ^ k"
  proof (cases "L = 53")
    case True
    then show ?thesis by (simp add: powr_int_def k_def)
  next
    case False
    with L53 have "nat (53 - int L) = k"
      by (simp add: k_def)
    with False L53 show ?thesis
      by (simp add: powr_int_def)
  qed
  have "\<bar>of_int n :: rat\<bar> / powr_int 2 (int L - 53) = of_int (a * 2 ^ k)"
    by (simp add: abs pw)
  then have m: "round_half_even (\<bar>of_int n :: rat\<bar> / powr_int 2 (int L - 53)) = a * 2 ^ k"
    by (simp only: round_half_even_of_int)
  have "sgn (of_int n :: rat) * of_int a = of_int n"
    by (simp add: a_def sgn_if)
  then have r: "sgn (of_int n :: rat) * of_int (a * 2 ^ k) * (1 / 2 ^ k) = of_int n"
    by simp
  have "fl (of_int n) =
      sgn (of_int n) * of_int (round_half_even (\<bar>of_int n :: rat\<bar> / powr_int 2 (int L - 53)))
        * powr_int 2 (int L - 53)"
    unfolding fl_def Let_def e using assms(1) by simp
  also have "\<dots> = sgn (of_int n) * of_int (a * 2 ^ k) * powr_int 2 (int L - 53)"
    by (simp only: m)
  also have "\<dots> = sgn (of_int n) * of_int (a * 2 ^ k) * (1 / 2 ^ k)"
    by (simp only: pw)
  also have "\<dots> = of_int n"
    by (fact r)
  finally show ?thesis .
qed

lemma fl_of_int:
  assumes "\<bar>n\<bar> \<le> 2 ^ 53"
  shows "fl (of_int n) = of_int n"
proof -
  consider "n = 0" | "n \<noteq> 0" "\<bar>n\<bar> < 2 ^ 53" | "n = 2 ^ 53" | "n = - (2 ^ 53)"
    using assms by fastforce
  then show ?thesis
  proof cases
    case 1
    then show ?thesis by (simp add: fl_def)
  next
    case 2
    then show ?thesis by (rule fl_of_int_small)
  next
    case 3
    then show ?thesis
      by (simp add: fl_def ilog_def compute_floorlog powr_int_def round_half_even_def)
  next
    case 4
    then show ?thesis
      by (simp add: fl_def ilog_def compute_floorlog powr_int_def round_half_even_def)
  qed
qed

lemma to_number_of_int:
  assumes "\<bar>n\<bar> \<le> 2 ^ 53"
  shows "to_number (of_int n) = Num (of_int n)"
proof -
  have "\<bar>of_int n :: rat\<bar> \<le> 2 ^ 53"
    using assms by (metis of_int_abs of_int_le_iff of_int_numeral of_int_power)
  moreover have "(2 :: rat) ^ 53 < 2 ^ 1024"
    by simp
  ultimately have "\<bar>of_int n :: rat\<bar> < 2 ^ 1024"
    by (rule le_less_trans)
  then show ?thesis
    by (simp add: to_number_def fl_of_int [OF assms] abs_less_iff not_le)
qed

lemma floor_rat_numeral:
  "\<lfloor>numeral a / numeral b :: rat\<rfloor> = numeral a div numeral b"
  using floor_divide_of_int_eq [of "numeral a" "numeral b", where ?'a = rat] by simp

lemma ceiling_rat_numeral:
  "\<lceil>numeral a / numeral b :: rat\<rceil> = - (- numeral a div numeral b)"
  using floor_divide_of_int_eq [of "- numeral a" "numeral b", where ?'a = rat]
  by (simp add: ceiling_def)

lemmas number_eval = to_number_def fl_def ilog_def compute_floorlog powr_int_def
  round_half_even_def Let_def floor_rat_numeral ceiling_rat_numeral

lemma times_1005:
  "number_times (Num (1131529406376837 / 1125899906842624)) (Num 1000000) =
     Num (8632884264959999 / 8589934592)"
  by (simp add: number_eval)

lemma fl_1005: "fl (201 / 200) = 1131529406376837 / 1125899906842624"
  by (simp add: number_eval)

lemma candidates_100: "candidates 100 3 1 = [(1, 3)]"
  by (simp add: candidates_def number_eval)

lemma toString_100: "Number_toString (Num 100) = ''100''"
proof -
  have "ilog 10 100 = 2"
    by (simp add: ilog_def compute_floorlog)
  moreover have "shortest 100 3 1 17 = (1, 1, 3)"
    using candidates_100 by (simp add: eval_nat_numeral)
  moreover have "digits 1 = ''1''"
    by (simp add: digits.simps [of "Suc 0"] digit_def)
  then have "render 1 1 3 = ''100''"
    by (simp add: render_def eval_nat_numeral)
  ultimately show ?thesis
    by (simp add: positive_toString_def)
qed

subsection \<open>How the pieces run\<close>

lemma getAssetIndex_run:
  "getAssetIndex env s w =
     (case symbolConversion env s of
        None \<Rightarrow> Inl (Error (''Unknown asset: '' @ s))
      | Some i \<Rightarrow> Inr i, emit (Lookup s) w)"
  by (simp add: getAssetIndex_def await_def lookup_def throw_def resolved_def split: option.splits)

lemma emit_trace: "emit ev w = w\<lparr>trace := trace w @ [ev]\<rparr>"
  by (simp add: emit_def)

lemma Promise_all_lookups:
  "Promise_all (map (\<lambda>x. await (getAssetIndex env (g x)) (\<lambda>a. resolved (h x a))) xs) w =
     (case find (\<lambda>x. symbolConversion env (g x) = None) xs of
        Some x \<Rightarrow> Inl (Error (''Unknown asset: '' @ g x))
      | None \<Rightarrow> Inr (map (\<lambda>x. h x (the (symbolConversion env (g x)))) xs),
      w\<lparr>trace := trace w @ map (\<lambda>x. Lookup (g x)) xs\<rparr>)"
proof (induction xs arbitrary: w)
  case Nil
  then show ?case by simp
next
  case (Cons x xs)
  then show ?case
    by (simp add: await_def getAssetIndex_run resolved_def emit_trace split: option.splits)
qed

lemma await_resolved: "await p resolved = p"
  by (rule ext) (simp add: await_def resolved_def split: prod.splits sum.splits)

lemma l1_tail:
  "await Date_now (\<lambda>nonce.
     await (signL1 env act v nonce) (\<lambda>signature.
       makeRequest env \<lparr>action = act, nonce = nonce, signature = signature, vaultAddress = vf\<rparr> wt)) w =
   (case signL1Action env (wallet env) act v (clock w) of
      Inl e \<Rightarrow> (Inl e, w\<lparr>trace := trace w @ [DateNow (clock w), SignL1 act v (clock w)]\<rparr>)
    | Inr sg \<Rightarrow>
        (httpApi env \<lparr>action = act, nonce = clock w, signature = sg, vaultAddress = vf\<rparr> wt,
         w\<lparr>trace := trace w @ [DateNow (clock w), SignL1 act v (clock w),
            Request \<lparr>action = act, nonce = clock w, signature = sg, vaultAddress = vf\<rparr> wt]\<rparr>))"
  by (simp add: await_def Date_now_def signL1_def makeRequest_def emit_def split: sum.splits)

lemma await_getAssetIndex:
  "await (getAssetIndex env s) k w =
     (case symbolConversion env s of
        None \<Rightarrow> (Inl (Error (''Unknown asset: '' @ s)), w\<lparr>trace := trace w @ [Lookup s]\<rparr>)
      | Some i \<Rightarrow> k i (w\<lparr>trace := trace w @ [Lookup s]\<rparr>))"
  by (simp add: await_def getAssetIndex_run emit_trace split: option.splits)

lemma await_all_lookups:
  "await (Promise_all (map (\<lambda>x. await (getAssetIndex env (g x)) (\<lambda>a. resolved (h x a))) xs)) k w =
     (case find (\<lambda>x. symbolConversion env (g x) = None) xs of
        Some x \<Rightarrow> (Inl (Error (''Unknown asset: '' @ g x)),
                   w\<lparr>trace := trace w @ map (\<lambda>x. Lookup (g x)) xs\<rparr>)
      | None \<Rightarrow> k (map (\<lambda>x. h x (the (symbolConversion env (g x)))) xs)
                 (w\<lparr>trace := trace w @ map (\<lambda>x. Lookup (g x)) xs\<rparr>))"
  by (simp add: await_def Promise_all_lookups split: option.splits)

lemma await_all_getAssetIndex:
  "await (Promise_all (map (\<lambda>x. getAssetIndex env (g x)) xs)) k w =
     (case find (\<lambda>x. symbolConversion env (g x) = None) xs of
        Some x \<Rightarrow> (Inl (Error (''Unknown asset: '' @ g x)),
                   w\<lparr>trace := trace w @ map (\<lambda>x. Lookup (g x)) xs\<rparr>)
      | None \<Rightarrow> k (map (\<lambda>x. the (symbolConversion env (g x))) xs)
                 (w\<lparr>trace := trace w @ map (\<lambda>x. Lookup (g x)) xs\<rparr>))"
  using await_all_lookups [of env g "\<lambda>x a. a" xs k w] by (simp add: await_resolved)

lemma usd_tail:
  "await Date_now (\<lambda>time.
     await (signUsdTransfer env (f time)) (\<lambda>signature.
       makeRequest env \<lparr>action = f time, nonce = n time, signature = signature, vaultAddress = vf\<rparr> wt)) w =
   (case signUsdTransferAction env (wallet env) (f (clock w)) of
      Inl e \<Rightarrow> (Inl e, w\<lparr>trace := trace w @ [DateNow (clock w), SignUsdTransfer (f (clock w))]\<rparr>)
    | Inr sg \<Rightarrow>
        (httpApi env \<lparr>action = f (clock w), nonce = n (clock w), signature = sg, vaultAddress = vf\<rparr> wt,
         w\<lparr>trace := trace w @ [DateNow (clock w), SignUsdTransfer (f (clock w)),
            Request \<lparr>action = f (clock w), nonce = n (clock w), signature = sg, vaultAddress = vf\<rparr> wt]\<rparr>))"
  by (simp add: await_def Date_now_def signUsdTransfer_def makeRequest_def emit_def split: sum.splits)

lemma user_tail:
  "await Date_now (\<lambda>time.
     await (signUserSigned env (f time) tys pt) (\<lambda>signature.
       makeRequest env \<lparr>action = f time, nonce = n time, signature = signature, vaultAddress = vf\<rparr> wt)) w =
   (case signUserSignedAction env (wallet env) (f (clock w)) tys pt of
      Inl e \<Rightarrow> (Inl e, w\<lparr>trace := trace w @ [DateNow (clock w), SignUserSigned (f (clock w)) tys pt]\<rparr>)
    | Inr sg \<Rightarrow>
        (httpApi env \<lparr>action = f (clock w), nonce = n (clock w), signature = sg, vaultAddress = vf\<rparr> wt,
         w\<lparr>trace := trace w @ [DateNow (clock w), SignUserSigned (f (clock w)) tys pt,
            Request \<lparr>action = f (clock w), nonce = n (clock w), signature = sg, vaultAddress = vf\<rparr> wt]\<rparr>))"
  by (simp add: await_def Date_now_def signUserSigned_def makeRequest_def emit_def split: sum.splits)

lemma withdraw_tail:
  "await Date_now (\<lambda>time.
     await (signWithdrawFromBridge env (f time)) (\<lambda>signature.
       makeRequest env \<lparr>action = f time, nonce = n time, signature = signature, vaultAddress = vf\<rparr> wt)) w =
   (case signWithdrawFromBridgeAction env (wallet env) (f (clock w)) of
      Inl e \<Rightarrow> (Inl e, w\<lparr>trace := trace w @ [DateNow (clock w), SignWithdraw (f (clock w))]\<rparr>)
    | Inr sg \<Rightarrow>
        (httpApi env \<lparr>action = f (clock w), nonce = n (clock w), signature = sg, vaultAddress = vf\<rparr> wt,
         w\<lparr>trace := trace w @ [DateNow (clock w), SignWithdraw (f (clock w)),
            Request \<lparr>action = f (clock w), nonce = n (clock w), signature = sg, vaultAddress = vf\<rparr> wt]\<rparr>))"
  by (simp add: await_def Date_now_def signWithdrawFromBridge_def makeRequest_def emit_def split: sum.splits)

lemmas run_defs = placeOrder_def cancelOrder_def cancelOrderByCloid_def modifyOrder_def
  batchModifyOrders_def updateLeverage_def updateIsolatedMargin_def usdTransfer_def
  spotTransfer_def initiateWithdrawal_def transferBetweenSpotAndPerp_def scheduleCancel_def
  vaultTransfer_def setReferrer_def

lemma observe_lookups [simp]:
  "requests (map (\<lambda>x. Lookup (g x)) xs) = []"
  "signer_calls (map (\<lambda>x. Lookup (g x)) xs) = []"
  "signed_actions (map (\<lambda>x. Lookup (g x)) xs) = []"
  "clock_reads (map (\<lambda>x. Lookup (g x)) xs) = []"
  "lookups (map (\<lambda>x. Lookup (g x)) xs) = map g xs"
  by (induction xs) simp_all

lemma observe_append [simp]:
  "requests (evs @ evs') = requests evs @ requests evs'"
  "signer_calls (evs @ evs') = signer_calls evs @ signer_calls evs'"
  "signed_actions (evs @ evs') = signed_actions evs @ signed_actions evs'"
  "clock_reads (evs @ evs') = clock_reads evs @ clock_reads evs'"
  "lookups (evs @ evs') = lookups evs @ lookups evs'"
  by (induction evs rule: requests.induct; simp)+

lemmas run_simps = run_defs Let_def await_getAssetIndex await_all_lookups await_all_getAssetIndex
  l1_tail usd_tail user_tail withdraw_tail

lemma await_all_lookups_single:
  "await (Promise_all [await (getAssetIndex env s) (\<lambda>a. resolved (h a))]) k w =
     (case symbolConversion env s of
        None \<Rightarrow> (Inl (Error (''Unknown asset: '' @ s)), w\<lparr>trace := trace w @ [Lookup s]\<rparr>)
      | Some i \<Rightarrow> k [h i] (w\<lparr>trace := trace w @ [Lookup s]\<rparr>))"
  by (simp add: await_def getAssetIndex_run resolved_def emit_trace split: option.splits)

lemma map_zip_upt_nth:
  "length ys = length xs \<Longrightarrow>
   map (\<lambda>(x, i). f x (ys ! i)) (zip xs [0..<length xs]) = map (\<lambda>(x, y). f x y) (zip xs ys)"
  by (rule nth_equalityI) simp_all

lemma find_unknown:
  assumes "s \<in> set (map g xs)" and "symbolConversion env s = None"
  obtains x where "find (\<lambda>x. symbolConversion env (g x) = None) xs = Some x"
    and "g x \<in> set (map g xs)" and "symbolConversion env (g x) = None"
proof (cases "find (\<lambda>x. symbolConversion env (g x) = None) xs")
  case None
  then show ?thesis
    using assms by (auto simp add: find_None_iff)
next
  case (Some x)
  then have "x \<in> set xs" and "symbolConversion env (g x) = None"
    by (auto simp add: find_Some_iff)
  with Some that show ?thesis by simp
qed

lemmas eval_simps = effects_def run_defs Let_def await_def getAssetIndex_def lookup_def throw_def
  resolved_def Date_now_def signL1_def signUsdTransfer_def signUserSigned_def
  signWithdrawFromBridge_def makeRequest_def emit_def elapse_def demo_env_def demo_world_def
  demo_order_def orderRequestToOrderWire_def orderWiresToOrderAction_def

lemma all_known:
  assumes "map (\<lambda>x. symbolConversion env (g x)) xs = map Some idxs"
  shows "find (\<lambda>x. symbolConversion env (g x) = None) xs = None"
    and "map (\<lambda>x. the (symbolConversion env (g x))) xs = idxs"
    and "length idxs = length xs"
proof -
  show len: "length idxs = length xs"
    using assms by (metis length_map)
  have nth: "symbolConversion env (g (xs ! i)) = Some (idxs ! i)" if "i < length xs" for i
    using that len arg_cong [OF assms, of "\<lambda>l. l ! i"] by simp
  show "find (\<lambda>x. symbolConversion env (g x) = None) xs = None"
    using nth by (auto simp add: find_None_iff in_set_conv_nth)
  show "map (\<lambda>x. the (symbolConversion env (g x))) xs = idxs"
    using nth len by (intro nth_equalityI) simp_all
qed

lemma map_pair_zip: "map (\<lambda>x. (x, f x)) xs = zip xs (map f xs)"
  by (induction xs) simp_all

lemma cancelOrder_effects:
  assumes "map (\<lambda>r. symbolConversion env (cr_coin r)) rs = map Some idxs"
  shows "effects env (CancelOrder (Many rs)) w =
    map (\<lambda>r. Lookup (cr_coin r)) rs @
    DateNow (clock w) #
    SignL1 (CANCEL (map (\<lambda>(r, i). \<lparr>cw_a = i, cw_o = cr_o r\<rparr>) (zip rs idxs))) Null (clock w) #
    (case signL1Action env (wallet env)
            (CANCEL (map (\<lambda>(r, i). \<lparr>cw_a = i, cw_o = cr_o r\<rparr>) (zip rs idxs))) Null (clock w) of
       Inl e \<Rightarrow> []
     | Inr sg \<Rightarrow>
         [Request \<lparr>action = CANCEL (map (\<lambda>(r, i). \<lparr>cw_a = i, cw_o = cr_o r\<rparr>) (zip rs idxs)),
                   nonce = clock w, signature = sg, vaultAddress = None\<rparr> 1])"
proof -
  have "map (\<lambda>r. (r, the (symbolConversion env (cr_coin r)))) rs = zip rs idxs"
    using all_known(2) [OF assms] by (simp add: map_pair_zip)
  then have "map ((\<lambda>(r, i). \<lparr>cw_a = i, cw_o = cr_o r\<rparr>) \<circ> (\<lambda>r. (r, the (symbolConversion env (cr_coin r))))) rs
      = map (\<lambda>(r, i). \<lparr>cw_a = i, cw_o = cr_o r\<rparr>) (zip rs idxs)"
    by (simp flip: map_map)
  then show ?thesis
    using all_known(1) [OF assms]
    by (simp add: effects_def run_simps split: sum.splits)
qed

lemma batchModifyOrders_effects:
  assumes "map (\<lambda>m. symbolConversion env (coin (mr_order m))) ms = map Some idxs"
  shows "effects env (BatchModifyOrders ms) w =
    map (\<lambda>m. Lookup (coin (mr_order m))) ms @
    DateNow (clock w) #
    SignL1 (BATCH_MODIFY (map (\<lambda>(m, i).
        \<lparr>mw_oid = mr_oid m, mw_order = orderRequestToOrderWire (mr_order m) i\<rparr>) (zip ms idxs)))
      Null (clock w) #
    (case signL1Action env (wallet env)
            (BATCH_MODIFY (map (\<lambda>(m, i).
               \<lparr>mw_oid = mr_oid m, mw_order = orderRequestToOrderWire (mr_order m) i\<rparr>) (zip ms idxs)))
            Null (clock w) of
       Inl e \<Rightarrow> []
     | Inr sg \<Rightarrow>
         [Request \<lparr>action = BATCH_MODIFY (map (\<lambda>(m, i).
                     \<lparr>mw_oid = mr_oid m, mw_order = orderRequestToOrderWire (mr_order m) i\<rparr>)
                     (zip ms idxs)),
                   nonce = clock w, signature = sg, vaultAddress = None\<rparr> 1])"
proof -
  have "map (\<lambda>(m, index). \<lparr>mw_oid = mr_oid m,
          mw_order = orderRequestToOrderWire (mr_order m) (idxs ! index)\<rparr>) (zip ms [0..<length ms])
      = map (\<lambda>(m, i). \<lparr>mw_oid = mr_oid m, mw_order = orderRequestToOrderWire (mr_order m) i\<rparr>)
          (zip ms idxs)"
    using map_zip_upt_nth [OF all_known(3) [OF assms],
        of "\<lambda>m i. \<lparr>mw_oid = mr_oid m, mw_order = orderRequestToOrderWire (mr_order m) i\<rparr>"]
    by simp
  then show ?thesis
    using all_known(1, 2) [OF assms]
    by (simp add: effects_def run_simps split: sum.splits)
qed

lemma single_known:
  "[symbolConversion env s] = map Some idxs \<Longrightarrow> \<exists>i. idxs = [i] \<and> symbolConversion env s = Some i"
  by (cases idxs) auto

lemma zip_map_snd: "length ys = length xs \<Longrightarrow> map (\<lambda>(x, y). y) (zip xs ys) = ys"
  by (rule nth_equalityI) simp_all

lemma await_all_empty: "await (Promise_all []) k w = k [] w"
  by (simp add: await_def)

text \<open>A call only appends to the trace, and it leaves the clock alone.\<close>

lemma exec_trace: "trace (snd (exec env c w)) = trace w @ effects env c w"
  by (cases c)
    (simp_all add: effects_def run_simps
      split: sum.splits option.splits prod.splits if_splits one_or_many.splits)

lemma exec_clock: "clock (snd (exec env c w)) = clock w"
  by (cases c)
    (simp_all add: run_simps
      split: sum.splits option.splits prod.splits if_splits one_or_many.splits)

lemma request_nonce: "p \<in> set (requests (effects env c w)) \<Longrightarrow> nonce p = clock w"
  by (cases c)
    (simp_all add: effects_def run_simps
      split: sum.splits option.splits prod.splits if_splits one_or_many.splits)

subsection \<open>Nonces of consecutive calls\<close>

text \<open>
  C1, as the specification states it: of two calls made one after the other on the same
  instance, the second carries the strictly greater nonce, even when both fall into
  the same millisecond. The source reads \<open>Date.now()\<close> and nothing else: an order
  and a cancel with no time between them are dispatched with the same nonce.
\<close>

theorem same_millisecond_nonce_counterexample:
  "map nonce (requests (effects demo_env (PlaceOrder (demo_order ''BTC'') None) demo_world))
     = [1700000000000]
   \<and> map nonce (requests (effects demo_env (CancelOrderByCloid ''ETH'' ''0x1234'')
        (elapse 0 (snd (exec demo_env (PlaceOrder (demo_order ''BTC'') None) demo_world)))))
     = [1700000000000]
   \<and> \<not> (1700000000000 :: int) < 1700000000000"
  by (simp add: eval_simps)

text \<open>
  C1, amended: when \<open>d\<close> milliseconds of wall-clock time go by between two calls on
  the same instance, the nonce dispatched by the second is the nonce dispatched by the
  first plus \<open>d\<close>. So the second nonce is never smaller than the first, and it is
  strictly greater exactly when at least one millisecond has gone by.
\<close>

theorem sequential_nonces:
  assumes "p1 \<in> set (requests (effects env c1 w))"
    and "p2 \<in> set (requests (effects env c2 (elapse d (snd (exec env c1 w)))))"
  shows "nonce p2 = nonce p1 + int d \<and> nonce p1 \<le> nonce p2
    \<and> (nonce p1 < nonce p2 \<longleftrightarrow> 0 < d)"
  using request_nonce [OF assms(1)] request_nonce [OF assms(2)]
  by (simp add: elapse_def exec_clock)

theorem sequential_nonces_witness:
  "requests (effects demo_env (PlaceOrder (demo_order ''BTC'') None) demo_world) =
     [\<lparr>action = ORDER [\<lparr>ow_asset = 3, ow_details = ''buy 0.1 at 50000''\<rparr>],
       nonce = 1700000000000, signature = ''l1'', vaultAddress = Some Null\<rparr>]
   \<and> requests (effects demo_env (SetReferrer ''FRIEND'')
        (elapse 5 (snd (exec demo_env (PlaceOrder (demo_order ''BTC'') None) demo_world)))) =
     [\<lparr>action = SET_REFERRER ''FRIEND'',
       nonce = 1700000000005, signature = ''l1'', vaultAddress = None\<rparr>]
   \<and> (1700000000005 :: int) = 1700000000000 + int 5
   \<and> (1700000000000 :: int) < 1700000000005"
proof -
  let ?c1 = "PlaceOrder (demo_order ''BTC'') None :: string call"
  let ?p1 = "\<lparr>action = ORDER [\<lparr>ow_asset = 3, ow_details = ''buy 0.1 at 50000''\<rparr>],
       nonce = 1700000000000, signature = ''l1'', vaultAddress = Some Null\<rparr>
       :: (string, string) payload"
  let ?p2 = "\<lparr>action = SET_REFERRER ''FRIEND'',
       nonce = 1700000000005, signature = ''l1'', vaultAddress = None\<rparr>
       :: (string, string) payload"
  have r1: "requests (effects demo_env ?c1 demo_world) = [?p1]"
    by (simp add: eval_simps)
  have r2: "requests (effects demo_env (SetReferrer ''FRIEND'')
        (elapse 5 (snd (exec demo_env ?c1 demo_world)))) = [?p2]"
    by (simp add: eval_simps)
  have h1: "?p1 \<in> set (requests (effects demo_env ?c1 demo_world))"
    using r1 by simp
  have h2: "?p2 \<in> set (requests (effects demo_env (SetReferrer ''FRIEND'')
        (elapse 5 (snd (exec demo_env ?c1 demo_world)))))"
    using r2 by simp
  from sequential_nonces [OF h1 h2] r1 r2 show ?thesis by simp
qed

subsection \<open>The vault address in the payload\<close>

text \<open>
  C5, as the specification states it: the payload has the field \<open>vaultAddress\<close> for
  order placement only, and when the caller passes no vault address the field is
  absent. The parameter of \<open>placeOrder\<close> defaults to \<open>null\<close> and the payload literal
  always names the field: without a vault address the payload holds
  \<open>vaultAddress: null\<close>, it does not lack the field.
\<close>

theorem placeOrder_vaultAddress_counterexample:
  "map vaultAddress (requests (effects demo_env (PlaceOrder (demo_order ''BTC'') None) demo_world))
     = [Some Null]
   \<and> Some Null \<noteq> (None :: string nullable option)"
  by (simp add: eval_simps)

text \<open>
  C5, amended: a payload dispatched by \<open>placeOrder\<close> always has the field
  \<open>vaultAddress\<close>, holding the caller's vault address, or \<open>null\<close> when the caller
  passes none; a payload dispatched by any other method has no such field.
\<close>

theorem payload_vaultAddress:
  "p \<in> set (requests (effects env c w)) \<Longrightarrow>
   vaultAddress p =
     (case c of
        PlaceOrder orderRequest v \<Rightarrow> Some (case v of None \<Rightarrow> Null | Some x \<Rightarrow> x)
      | _ \<Rightarrow> None)"
  by (cases c)
    (simp_all add: effects_def run_simps
      split: sum.splits option.splits prod.splits if_splits one_or_many.splits)

theorem payload_vaultAddress_witness:
  "requests (effects demo_env (PlaceOrder (demo_order ''BTC'') (Some (Value ''0xvault''))) demo_world) =
     [\<lparr>action = ORDER [\<lparr>ow_asset = 3, ow_details = ''buy 0.1 at 50000''\<rparr>],
       nonce = 1700000000000, signature = ''l1'', vaultAddress = Some (Value ''0xvault'')\<rparr>]
   \<and> requests (effects demo_env (CancelOrderByCloid ''ETH'' ''0x1234'') demo_world) =
     [\<lparr>action = CANCEL_BY_CLOID [\<lparr>cc_asset = 1, cc_cloid = ''0x1234''\<rparr>],
       nonce = 1700000000000, signature = ''l1'', vaultAddress = None\<rparr>]"
proof -
  let ?c1 = "PlaceOrder (demo_order ''BTC'') (Some (Value ''0xvault'')) :: string call"
  let ?c2 = "CancelOrderByCloid ''ETH'' ''0x1234'' :: string call"
  let ?q1 = "\<lparr>action = ORDER [\<lparr>ow_asset = 3, ow_details = ''buy 0.1 at 50000''\<rparr>],
       nonce = 1700000000000, signature = ''l1'', vaultAddress = None\<rparr>
       :: (string, string) payload"
  let ?q2 = "\<lparr>action = CANCEL_BY_CLOID [\<lparr>cc_asset = 1, cc_cloid = ''0x1234''\<rparr>],
       nonce = 1700000000000, signature = ''l1'', vaultAddress = Some Null\<rparr>
       :: (string, string) payload"
  have r1: "map (\<lambda>p. p\<lparr>vaultAddress := None\<rparr>) (requests (effects demo_env ?c1 demo_world)) = [?q1]"
    by (simp add: eval_simps)
  have r2: "map (\<lambda>p. p\<lparr>vaultAddress := Some Null\<rparr>) (requests (effects demo_env ?c2 demo_world)) = [?q2]"
    by (simp add: eval_simps)
  from r1 obtain p1 where p1: "requests (effects demo_env ?c1 demo_world) = [p1]"
    and q1: "p1\<lparr>vaultAddress := None\<rparr> = ?q1"
    by auto
  from r2 obtain p2 where p2: "requests (effects demo_env ?c2 demo_world) = [p2]"
    and q2: "p2\<lparr>vaultAddress := Some Null\<rparr> = ?q2"
    by auto
  have h1: "p1 \<in> set (requests (effects demo_env ?c1 demo_world))"
    using p1 by simp
  have h2: "p2 \<in> set (requests (effects demo_env ?c2 demo_world))"
    using p2 by simp
  have v1: "vaultAddress p1 = Some (Value ''0xvault'')"
    using payload_vaultAddress [OF h1] by simp
  have v2: "vaultAddress p2 = None"
    using payload_vaultAddress [OF h2] by simp
  have "p1 = ?q1\<lparr>vaultAddress := Some (Value ''0xvault'')\<rparr>"
    using q1 v1 by (cases p1) auto
  moreover have "p2 = ?q2\<lparr>vaultAddress := None\<rparr>"
    using q2 v2 by (cases p2) auto
  ultimately show ?thesis
    using p1 p2 by simp
qed

subsection \<open>Unknown symbols\<close>

text \<open>
  C2: when a call refers to a symbol for which the directory has no asset index, the
  call fails with the error \<open>Unknown asset: ...\<close> for a symbol of the call that
  the directory does not know, and it has read no clock, called no signer and
  dispatched no request.
\<close>

theorem unknown_symbol_fails:
  assumes "s \<in> set (symbols c)" and "symbolConversion env s = None"
  shows "(\<exists>s' \<in> set (symbols c). symbolConversion env s' = None
            \<and> fst (exec env c w) = Inl (Error (''Unknown asset: '' @ s')))
    \<and> clock_reads (effects env c w) = []
    \<and> signer_calls (effects env c w) = []
    \<and> requests (effects env c w) = []"
proof (cases c)
  case (CancelOrder rs)
  show ?thesis
  proof (cases rs)
    case (One r)
    with CancelOrder assms show ?thesis
      by (simp add: effects_def run_simps await_all_lookups_single)
  next
    case (Many xs)
    with CancelOrder assms obtain x
      where "find (\<lambda>x. symbolConversion env (cr_coin x) = None) xs = Some x"
        and "cr_coin x \<in> set (map cr_coin xs)" and "symbolConversion env (cr_coin x) = None"
      using find_unknown [of s cr_coin xs env] by auto
    with CancelOrder Many show ?thesis
      by (auto simp add: effects_def run_simps)
  qed
next
  case (BatchModifyOrders ms)
  with assms obtain x
    where "find (\<lambda>m. symbolConversion env (coin (mr_order m)) = None) ms = Some x"
      and "coin (mr_order x) \<in> set (map (\<lambda>m. coin (mr_order m)) ms)"
      and "symbolConversion env (coin (mr_order x)) = None"
    using find_unknown [of s "\<lambda>m. coin (mr_order m)" ms env] by auto
  with BatchModifyOrders show ?thesis
    by (auto simp add: effects_def run_simps)
qed (use assms in \<open>simp_all add: effects_def run_simps\<close>)

theorem unknown_symbol_fails_witness:
  "''DOGE'' \<in> set (symbols (BatchModifyOrders
       [\<lparr>mr_oid = Num 7, mr_order = demo_order ''BTC''\<rparr>,
        \<lparr>mr_oid = Num 8, mr_order = demo_order ''DOGE''\<rparr>]))
   \<and> symbolConversion demo_env ''DOGE'' = None
   \<and> exec demo_env (BatchModifyOrders
       [\<lparr>mr_oid = Num 7, mr_order = demo_order ''BTC''\<rparr>,
        \<lparr>mr_oid = Num 8, mr_order = demo_order ''DOGE''\<rparr>]) demo_world =
      (Inl (Error ''Unknown asset: DOGE''),
       \<lparr>clock = 1700000000000, trace = [Lookup ''BTC'', Lookup ''DOGE'']\<rparr>)
   \<and> signer_calls (effects demo_env (BatchModifyOrders
       [\<lparr>mr_oid = Num 7, mr_order = demo_order ''BTC''\<rparr>,
        \<lparr>mr_oid = Num 8, mr_order = demo_order ''DOGE''\<rparr>]) demo_world) = []
   \<and> requests (effects demo_env (BatchModifyOrders
       [\<lparr>mr_oid = Num 7, mr_order = demo_order ''BTC''\<rparr>,
        \<lparr>mr_oid = Num 8, mr_order = demo_order ''DOGE''\<rparr>]) demo_world) = []"
proof -
  let ?c = "BatchModifyOrders
       [\<lparr>mr_oid = Num 7, mr_order = demo_order ''BTC''\<rparr>,
        \<lparr>mr_oid = Num 8, mr_order = demo_order ''DOGE''\<rparr>] :: string call"
  have h1: "''DOGE'' \<in> set (symbols ?c)"
    by (simp add: demo_order_def)
  have h2: "symbolConversion demo_env ''DOGE'' = None"
    by (simp add: demo_env_def)
  have run: "exec demo_env ?c demo_world =
      (Inl (Error ''Unknown asset: DOGE''),
       \<lparr>clock = 1700000000000, trace = [Lookup ''BTC'', Lookup ''DOGE'']\<rparr>)"
    by (simp add: eval_simps)
  from unknown_symbol_fails [OF h1 h2, of demo_world] h1 h2 run show ?thesis
    by simp
qed

subsection \<open>Batches\<close>

text \<open>
  C3: a batch cancel and a batch modify of any number of entries read the clock once
  and call the signer once, and when the signer returns a signature they dispatch one
  request. The action of that request has one entry for each entry of the caller's
  list, in the caller's order: entry \<open>k\<close> is built from request \<open>k\<close> and from the
  index of its symbol. (All symbols are known here; C2 covers the other case.)
\<close>

theorem batch_one_nonce_one_signature_one_request:
  assumes "map (\<lambda>r. symbolConversion env (cr_coin r)) rs = map Some idxs"
    and "signL1Action env (wallet env)
           (CANCEL (map (\<lambda>(r, i). \<lparr>cw_a = i, cw_o = cr_o r\<rparr>) (zip rs idxs))) Null (clock w) = Inr sg"
    and "map (\<lambda>m. symbolConversion env (coin (mr_order m))) ms = map Some jdxs"
    and "signL1Action env (wallet env)
           (BATCH_MODIFY (map (\<lambda>(m, j).
              \<lparr>mw_oid = mr_oid m, mw_order = orderRequestToOrderWire (mr_order m) j\<rparr>) (zip ms jdxs)))
           Null (clock w') = Inr sg'"
  shows "length (clock_reads (effects env (CancelOrder (Many rs)) w)) = 1
    \<and> length (signer_calls (effects env (CancelOrder (Many rs)) w)) = 1
    \<and> requests (effects env (CancelOrder (Many rs)) w) =
        [\<lparr>action = CANCEL (map (\<lambda>(r, i). \<lparr>cw_a = i, cw_o = cr_o r\<rparr>) (zip rs idxs)),
          nonce = clock w, signature = sg, vaultAddress = None\<rparr>]
    \<and> length (clock_reads (effects env (BatchModifyOrders ms) w')) = 1
    \<and> length (signer_calls (effects env (BatchModifyOrders ms) w')) = 1
    \<and> requests (effects env (BatchModifyOrders ms) w') =
        [\<lparr>action = BATCH_MODIFY (map (\<lambda>(m, j).
              \<lparr>mw_oid = mr_oid m, mw_order = orderRequestToOrderWire (mr_order m) j\<rparr>) (zip ms jdxs)),
          nonce = clock w', signature = sg', vaultAddress = None\<rparr>]"
  using assms(2, 4)
  by (simp add: cancelOrder_effects [OF assms(1)] batchModifyOrders_effects [OF assms(3)])


theorem batch_one_nonce_one_signature_one_request_witness:
  "map (\<lambda>r. symbolConversion demo_env (cr_coin r))
     [\<lparr>cr_coin = ''BTC'', cr_o = Num 11\<rparr>, \<lparr>cr_coin = ''ETH'', cr_o = Num 12\<rparr>,
      \<lparr>cr_coin = ''BTC'', cr_o = Num 13\<rparr>] = map Some [3, 1, 3]
   \<and> map (\<lambda>m. symbolConversion demo_env (coin (mr_order m)))
     [\<lparr>mr_oid = Num 21, mr_order = demo_order ''ETH''\<rparr>,
      \<lparr>mr_oid = Num 22, mr_order = demo_order ''BTC''\<rparr>] = map Some [1, 3]
   \<and> requests (effects demo_env (CancelOrder (Many
     [\<lparr>cr_coin = ''BTC'', cr_o = Num 11\<rparr>, \<lparr>cr_coin = ''ETH'', cr_o = Num 12\<rparr>,
      \<lparr>cr_coin = ''BTC'', cr_o = Num 13\<rparr>])) demo_world) =
     [\<lparr>action = CANCEL [\<lparr>cw_a = 3, cw_o = Num 11\<rparr>, \<lparr>cw_a = 1, cw_o = Num 12\<rparr>,
                         \<lparr>cw_a = 3, cw_o = Num 13\<rparr>],
       nonce = 1700000000000, signature = ''l1'', vaultAddress = None\<rparr>]
   \<and> requests (effects demo_env (BatchModifyOrders
     [\<lparr>mr_oid = Num 21, mr_order = demo_order ''ETH''\<rparr>,
      \<lparr>mr_oid = Num 22, mr_order = demo_order ''BTC''\<rparr>]) demo_world) =
     [\<lparr>action = BATCH_MODIFY
         [\<lparr>mw_oid = Num 21, mw_order = \<lparr>ow_asset = 1, ow_details = ''buy 0.1 at 50000''\<rparr>\<rparr>,
          \<lparr>mw_oid = Num 22, mw_order = \<lparr>ow_asset = 3, ow_details = ''buy 0.1 at 50000''\<rparr>\<rparr>],
       nonce = 1700000000000, signature = ''l1'', vaultAddress = None\<rparr>]
   \<and> length (signer_calls (effects demo_env (CancelOrder (Many
     [\<lparr>cr_coin = ''BTC'', cr_o = Num 11\<rparr>, \<lparr>cr_coin = ''ETH'', cr_o = Num 12\<rparr>,
      \<lparr>cr_coin = ''BTC'', cr_o = Num 13\<rparr>])) demo_world)) = 1"
proof -
  let ?rs = "[\<lparr>cr_coin = ''BTC'', cr_o = Num 11\<rparr>, \<lparr>cr_coin = ''ETH'', cr_o = Num 12\<rparr>,
      \<lparr>cr_coin = ''BTC'', cr_o = Num 13\<rparr>]"
  let ?ms = "[\<lparr>mr_oid = Num 21, mr_order = demo_order ''ETH''\<rparr>,
      \<lparr>mr_oid = Num 22, mr_order = demo_order ''BTC''\<rparr>]"
  have h1: "map (\<lambda>r. symbolConversion demo_env (cr_coin r)) ?rs = map Some [3, 1, 3]"
    by (simp add: demo_env_def)
  have h2: "signL1Action demo_env (wallet demo_env)
      (CANCEL (map (\<lambda>(r, i). \<lparr>cw_a = i, cw_o = cr_o r\<rparr>) (zip ?rs [3, 1, 3]))) Null
      (clock demo_world) = Inr ''l1''"
    by (simp add: demo_env_def)
  have h3: "map (\<lambda>m. symbolConversion demo_env (coin (mr_order m))) ?ms = map Some [1, 3]"
    by (simp add: demo_env_def demo_order_def)
  have h4: "signL1Action demo_env (wallet demo_env)
      (BATCH_MODIFY (map (\<lambda>(m, j).
         \<lparr>mw_oid = mr_oid m, mw_order = orderRequestToOrderWire (mr_order m) j\<rparr>) (zip ?ms [1, 3])))
      Null (clock demo_world) = Inr ''l1''"
    by (simp add: demo_env_def)
  from batch_one_nonce_one_signature_one_request [OF h1 h2 h3 h4] h1 h3 show ?thesis
    by (simp add: demo_world_def demo_order_def orderRequestToOrderWire_def)
qed

text \<open>
  C4: when the directory resolves the symbols of a call to the indices \<open>idxs\<close>, each
  symbol is looked up once, in the order of the arguments, and the action that is
  signed carries exactly \<open>idxs\<close>, position by position. For the methods that go
  through \<open>orderRequestToOrderWire\<close> the index is the one that the wire holds.
\<close>

theorem resolved_index_in_action:
  assumes "map (symbolConversion env) (symbols c) = map Some idxs"
  shows "lookups (effects env c w) = symbols c
    \<and> map action_assets (signed_actions (effects env c w)) = [idxs]"
proof (cases c)
  case (CancelOrder rs)
  show ?thesis
  proof (cases rs)
    case (One r)
    with CancelOrder assms single_known [of env "cr_coin r" idxs] show ?thesis
      by (auto simp add: effects_def run_simps await_all_lookups_single split: sum.splits)
  next
    case (Many xs)
    with CancelOrder assms
    have known: "map (\<lambda>r. symbolConversion env (cr_coin r)) xs = map Some idxs"
      by (simp add: comp_def)
    have "map (cw_a \<circ> (\<lambda>(r, i). \<lparr>cw_a = i, cw_o = cr_o r\<rparr>)) (zip xs idxs) = idxs"
      using zip_map_snd [OF all_known(3) [OF known]] by (simp add: comp_def case_prod_unfold)
    with CancelOrder Many show ?thesis
      by (simp add: cancelOrder_effects [OF known] comp_def split: sum.splits)
  qed
next
  case (BatchModifyOrders ms)
  with assms
  have known: "map (\<lambda>m. symbolConversion env (coin (mr_order m))) ms = map Some idxs"
    by (simp add: comp_def)
  have "map ((\<lambda>m. ow_asset (mw_order m)) \<circ> (\<lambda>(m, i).
      \<lparr>mw_oid = mr_oid m, mw_order = orderRequestToOrderWire (mr_order m) i\<rparr>)) (zip ms idxs) = idxs"
    using zip_map_snd [OF all_known(3) [OF known]]
    by (simp add: comp_def case_prod_unfold orderRequestToOrderWire_def)
  with BatchModifyOrders show ?thesis
    by (simp add: batchModifyOrders_effects [OF known] comp_def split: sum.splits)
next
  case (PlaceOrder r v)
  with assms single_known [of env "coin r" idxs] show ?thesis
    by (auto simp add: effects_def run_simps orderRequestToOrderWire_def
        orderWiresToOrderAction_def split: sum.splits)
next
  case (ModifyOrder oid r)
  with assms single_known [of env "coin r" idxs] show ?thesis
    by (auto simp add: effects_def run_simps orderRequestToOrderWire_def split: sum.splits)
next
  case (CancelOrderByCloid s cloid)
  with assms single_known [of env s idxs] show ?thesis
    by (auto simp add: effects_def run_simps split: sum.splits)
next
  case (UpdateLeverage s m l)
  with assms single_known [of env s idxs] show ?thesis
    by (auto simp add: effects_def run_simps split: sum.splits)
next
  case (UpdateIsolatedMargin s b n)
  with assms single_known [of env s idxs] show ?thesis
    by (auto simp add: effects_def run_simps split: sum.splits)
qed (use assms in \<open>simp_all add: effects_def run_simps split: sum.splits\<close>)


theorem resolved_index_in_action_witness:
  "map (symbolConversion demo_env) (symbols (BatchModifyOrders
     [\<lparr>mr_oid = Num 21, mr_order = demo_order ''ETH''\<rparr>,
      \<lparr>mr_oid = Num 22, mr_order = demo_order ''BTC''\<rparr>,
      \<lparr>mr_oid = Num 23, mr_order = demo_order ''ETH''\<rparr>])) = map Some [1, 3, 1]
   \<and> signed_actions (effects demo_env (BatchModifyOrders
     [\<lparr>mr_oid = Num 21, mr_order = demo_order ''ETH''\<rparr>,
      \<lparr>mr_oid = Num 22, mr_order = demo_order ''BTC''\<rparr>,
      \<lparr>mr_oid = Num 23, mr_order = demo_order ''ETH''\<rparr>]) demo_world) =
     [BATCH_MODIFY
         [\<lparr>mw_oid = Num 21, mw_order = \<lparr>ow_asset = 1, ow_details = ''buy 0.1 at 50000''\<rparr>\<rparr>,
          \<lparr>mw_oid = Num 22, mw_order = \<lparr>ow_asset = 3, ow_details = ''buy 0.1 at 50000''\<rparr>\<rparr>,
          \<lparr>mw_oid = Num 23, mw_order = \<lparr>ow_asset = 1, ow_details = ''buy 0.1 at 50000''\<rparr>\<rparr>]]
   \<and> lookups (effects demo_env (BatchModifyOrders
     [\<lparr>mr_oid = Num 21, mr_order = demo_order ''ETH''\<rparr>,
      \<lparr>mr_oid = Num 22, mr_order = demo_order ''BTC''\<rparr>,
      \<lparr>mr_oid = Num 23, mr_order = demo_order ''ETH''\<rparr>]) demo_world) = [''ETH'', ''BTC'', ''ETH'']
   \<and> map action_assets (signed_actions (effects demo_env (BatchModifyOrders
     [\<lparr>mr_oid = Num 21, mr_order = demo_order ''ETH''\<rparr>,
      \<lparr>mr_oid = Num 22, mr_order = demo_order ''BTC''\<rparr>,
      \<lparr>mr_oid = Num 23, mr_order = demo_order ''ETH''\<rparr>]) demo_world)) = [[1, 3, 1]]"
proof -
  let ?c = "BatchModifyOrders
     [\<lparr>mr_oid = Num 21, mr_order = demo_order ''ETH''\<rparr>,
      \<lparr>mr_oid = Num 22, mr_order = demo_order ''BTC''\<rparr>,
      \<lparr>mr_oid = Num 23, mr_order = demo_order ''ETH''\<rparr>] :: string call"
  have h: "map (symbolConversion demo_env) (symbols ?c) = map Some [1, 3, 1]"
    by (simp add: demo_env_def demo_order_def)
  have run: "signed_actions (effects demo_env ?c demo_world) =
     [BATCH_MODIFY
         [\<lparr>mw_oid = Num 21, mw_order = \<lparr>ow_asset = 1, ow_details = ''buy 0.1 at 50000''\<rparr>\<rparr>,
          \<lparr>mw_oid = Num 22, mw_order = \<lparr>ow_asset = 3, ow_details = ''buy 0.1 at 50000''\<rparr>\<rparr>,
          \<lparr>mw_oid = Num 23, mw_order = \<lparr>ow_asset = 1, ow_details = ''buy 0.1 at 50000''\<rparr>\<rparr>]]"
    by (simp add: eval_simps)
  from resolved_index_in_action [OF h, of demo_world] h run show ?thesis
    by (simp add: demo_order_def)
qed

subsection \<open>Single scenarios\<close>

text \<open>
  C8: when \<open>symbol\<close> resolves to \<open>i\<close>, \<open>cancelOrderByCloid symbol cloid\<close> makes
  one signer call, with the L1 scheme, on the action of type \<open>CANCEL_BY_CLOID\<close>
  whose list \<open>cancels\<close> has the single entry \<open>{asset: i, cloid}\<close>, with no vault
  address and the clock reading as nonce; the request it dispatches carries that
  action.
\<close>

theorem cancelOrderByCloid_action:
  assumes "symbolConversion env symbol = Some i"
  shows "signer_calls (effects env (CancelOrderByCloid symbol cloid) w) =
      [SignL1 (CANCEL_BY_CLOID [\<lparr>cc_asset = i, cc_cloid = cloid\<rparr>]) Null (clock w)]
    \<and> map action (requests (effects env (CancelOrderByCloid symbol cloid) w)) =
      (case signL1Action env (wallet env)
              (CANCEL_BY_CLOID [\<lparr>cc_asset = i, cc_cloid = cloid\<rparr>]) Null (clock w) of
         Inl e \<Rightarrow> []
       | Inr sg \<Rightarrow> [CANCEL_BY_CLOID [\<lparr>cc_asset = i, cc_cloid = cloid\<rparr>]])"
  using assms by (simp add: effects_def run_simps split: sum.splits)

theorem cancelOrderByCloid_action_witness:
  "symbolConversion demo_env ''ETH'' = Some 1
   \<and> signer_calls (effects demo_env (CancelOrderByCloid ''ETH'' ''0x1234'') demo_world) =
      [SignL1 (CANCEL_BY_CLOID [\<lparr>cc_asset = 1, cc_cloid = ''0x1234''\<rparr>]) Null 1700000000000]
   \<and> map action (requests (effects demo_env (CancelOrderByCloid ''ETH'' ''0x1234'') demo_world)) =
      [CANCEL_BY_CLOID [\<lparr>cc_asset = 1, cc_cloid = ''0x1234''\<rparr>]]"
proof -
  have h: "symbolConversion demo_env ''ETH'' = Some 1"
    by (simp add: demo_env_def)
  from cancelOrderByCloid_action [OF h, of "''0x1234''" demo_world] h show ?thesis
    by (simp add: demo_env_def demo_world_def)
qed

text \<open>
  C9: a batch method called with an empty list does not fail on its own account. It
  builds the action with the empty list and calls the signer on it; when the signer
  returns a signature it dispatches the payload, and its outcome is the outcome of
  the transport.
\<close>

theorem empty_batch_is_signed_and_sent:
  "cancelOrder env (Many []) w =
     (case signL1Action env (wallet env) (CANCEL []) Null (clock w) of
        Inl e \<Rightarrow> (Inl e, w\<lparr>trace := trace w @ [DateNow (clock w), SignL1 (CANCEL []) Null (clock w)]\<rparr>)
      | Inr sg \<Rightarrow>
          (httpApi env \<lparr>action = CANCEL [], nonce = clock w, signature = sg, vaultAddress = None\<rparr> 1,
           w\<lparr>trace := trace w @ [DateNow (clock w), SignL1 (CANCEL []) Null (clock w),
              Request \<lparr>action = CANCEL [], nonce = clock w, signature = sg, vaultAddress = None\<rparr> 1]\<rparr>))
   \<and> batchModifyOrders env [] w =
     (case signL1Action env (wallet env) (BATCH_MODIFY []) Null (clock w) of
        Inl e \<Rightarrow> (Inl e, w\<lparr>trace := trace w @ [DateNow (clock w), SignL1 (BATCH_MODIFY []) Null (clock w)]\<rparr>)
      | Inr sg \<Rightarrow>
          (httpApi env \<lparr>action = BATCH_MODIFY [], nonce = clock w, signature = sg, vaultAddress = None\<rparr> 1,
           w\<lparr>trace := trace w @ [DateNow (clock w), SignL1 (BATCH_MODIFY []) Null (clock w),
              Request \<lparr>action = BATCH_MODIFY [], nonce = clock w, signature = sg, vaultAddress = None\<rparr> 1]\<rparr>))"
  by (simp add: cancelOrder_def batchModifyOrders_def await_all_empty Let_def l1_tail split: sum.splits)

subsection \<open>Transfers\<close>

text \<open>
  C10: every payload dispatched by \<open>usdTransfer\<close>, \<open>spotTransfer\<close> or
  \<open>initiateWithdrawal\<close> has as nonce the field \<open>time\<close> of its action, and that action
  is the one the signer was called on.
\<close>

theorem transfer_nonce_is_signed_time:
  assumes "is_transfer c" and "p \<in> set (requests (effects env c w))"
  shows "action_time (action p) = Some (nonce p)
    \<and> signed_actions (effects env c w) = [action p]"
  using assms
  by (cases c) (auto simp add: effects_def run_simps split: sum.splits)

theorem transfer_nonce_is_signed_time_witness:
  "is_transfer (SpotTransfer ''0xdest'' ''PURR'' ''12.5'' :: string call)
   \<and> requests (effects demo_env (SpotTransfer ''0xdest'' ''PURR'' ''12.5'') demo_world) =
      [\<lparr>action = SPOT_SEND ''Mainnet'' ''0xa4b1'' ''0xdest'' ''PURR'' ''12.5'' 1700000000000,
        nonce = 1700000000000, signature = ''user'', vaultAddress = None\<rparr>]
   \<and> action_time (SPOT_SEND ''Mainnet'' ''0xa4b1'' ''0xdest'' ''PURR'' ''12.5'' 1700000000000
        :: string action) = Some 1700000000000"
proof -
  let ?c = "SpotTransfer ''0xdest'' ''PURR'' ''12.5'' :: string call"
  let ?p = "\<lparr>action = SPOT_SEND ''Mainnet'' ''0xa4b1'' ''0xdest'' ''PURR'' ''12.5'' 1700000000000,
        nonce = 1700000000000, signature = ''user'', vaultAddress = None\<rparr>
        :: (string, string) payload"
  have h1: "is_transfer ?c"
    by simp
  have run: "requests (effects demo_env ?c demo_world) = [?p]"
    by (simp add: eval_simps IS_MAINNET_def)
  then have h2: "?p \<in> set (requests (effects demo_env ?c demo_world))"
    by simp
  from transfer_nonce_is_signed_time [OF h1 h2] run show ?thesis
    by simp
qed

text \<open>
  C6: \<open>usdTransfer dest 100\<close> makes one signer call, to the typed-data signer of
  USD transfers and not to the L1 signer, on the action with \<open>amount\<close> the string
  \<open>100\<close>, \<open>hyperliquidChain\<close> the name \<open>Mainnet\<close> of the network that \<open>IS_MAINNET\<close>
  configures, and \<open>signatureChainId\<close> the string \<open>0xa4b1\<close>; the request it dispatches
  carries that action.
\<close>

theorem usdTransfer_100:
  "IS_MAINNET
   \<and> signer_calls (effects env (UsdTransfer dest (Num 100)) w) =
      [SignUsdTransfer (USD_SEND ''Mainnet'' ''0xa4b1'' dest ''100'' (clock w))]
   \<and> map action (requests (effects env (UsdTransfer dest (Num 100)) w)) =
      (case signUsdTransferAction env (wallet env)
              (USD_SEND ''Mainnet'' ''0xa4b1'' dest ''100'' (clock w)) of
         Inl e \<Rightarrow> []
       | Inr sg \<Rightarrow> [USD_SEND ''Mainnet'' ''0xa4b1'' dest ''100'' (clock w)])"
proof -
  have "positive_toString 100 = ''100''"
    using toString_100 by simp
  then show ?thesis
    by (simp add: effects_def run_simps IS_MAINNET_def split: sum.splits)
qed

subsection \<open>Scaling to micro-units\<close>

text \<open>
  C7, as the specification states it: the field \<open>usdc\<close> of \<open>classTransfer\<close> is
  \<open>usdc\<close> scaled by exactly \<open>10^6\<close>, an integer. The source computes
  \<open>usdc * 1e6\<close> in double precision: for the double written \<open>1.005\<close> the field is
  the double \<open>1004999.9999999999\<close>, which is neither the exact product nor an integer.
\<close>

theorem transferBetweenSpotAndPerp_rounding_counterexample:
  "fl (201 / 200) = 1131529406376837 / 1125899906842624
   \<and> signed_actions (effects demo_env
        (TransferBetweenSpotAndPerp (Num (1131529406376837 / 1125899906842624)) True) demo_world) =
      [SPOT_USER (Num (8632884264959999 / 8589934592)) True]
   \<and> (8632884264959999 / 8589934592 :: rat) \<noteq> 1131529406376837 / 1125899906842624 * 1000000
   \<and> (1004999 :: rat) < 8632884264959999 / 8589934592
   \<and> (8632884264959999 / 8589934592 :: rat) < 1005000"
  by (simp add: fl_1005 eval_simps times_1005 del: number_times.simps)

text \<open>
  C7, amended: the field \<open>usdc\<close> of \<open>classTransfer\<close> is \<open>usdc\<close> scaled by exactly
  \<open>10^6\<close> whenever that scaled value is an integer of magnitude at most \<open>2^53\<close>
  (50 gives 50000000), and the field \<open>toPerp\<close> is the given boolean. The theorem
  holds for every rational \<open>q\<close>, so in particular for every double.
\<close>

theorem transferBetweenSpotAndPerp_scaling:
  assumes "q * 1000000 = of_int N" and "\<bar>N\<bar> \<le> 2 ^ 53"
  shows "signer_calls (effects env (TransferBetweenSpotAndPerp (Num q) toPerp) w) =
      [SignL1 (SPOT_USER (Num (of_int N)) toPerp) Null (clock w)]
    \<and> map action (requests (effects env (TransferBetweenSpotAndPerp (Num q) toPerp) w)) =
      (case signL1Action env (wallet env) (SPOT_USER (Num (of_int N)) toPerp) Null (clock w) of
         Inl e \<Rightarrow> []
       | Inr sg \<Rightarrow> [SPOT_USER (Num (of_int N)) toPerp])"
proof -
  have "number_times (Num q) (Num 1000000) = Num (of_int N)"
    using to_number_of_int [OF assms(2)] assms(1) by simp
  then show ?thesis
    by (simp add: effects_def run_simps split: sum.splits)
qed

theorem transferBetweenSpotAndPerp_scaling_witness:
  "(50 :: rat) * 1000000 = of_int 50000000 \<and> \<bar>50000000 :: int\<bar> \<le> 2 ^ 53
   \<and> signer_calls (effects demo_env (TransferBetweenSpotAndPerp (Num 50) True) demo_world) =
      [SignL1 (SPOT_USER (Num 50000000) True) Null 1700000000000]
   \<and> map action (requests (effects demo_env (TransferBetweenSpotAndPerp (Num 50) True) demo_world)) =
      [SPOT_USER (Num 50000000) True]"
proof -
  have h1: "(50 :: rat) * 1000000 = of_int 50000000"
    by simp
  have h2: "\<bar>50000000 :: int\<bar> \<le> 2 ^ 53"
    by simp
  from transferBetweenSpotAndPerp_scaling [OF h1 h2, of demo_env True demo_world] h1 h2
  show ?thesis
    by (simp add: demo_env_def demo_world_def)
qed

end
